theory Spec2Isabelle
  imports Main "HOL-Library.Word"
begin

section \<open>The client of the thread-pool I/O engine (Client.cpp)\<close>

text \<open>
  The embedding follows Client.cpp function by function. A member function becomes a
  function from the client object to the updated object, together with the list of
  calls it makes to its collaborators (pool, thread-pool I/O, sockets, registry, log),
  in the order the source makes them. What the operating system answers to a call is
  not decided by the source: each answer is a field of the record \<open>OS\<close>.
  A null dereference and an access outside a buffer end the program: they are error
  values. So does a failed \<open>assert\<close> in a build with assertions, which is the build
  the functions below model. In a build with \<open>NDEBUG\<close> defined \<open>assert\<close> expands to
  nothing and the function runs on: the functions that assert, and their callers, are
  given once more for that build, with the suffix \<open>_NDEBUG\<close>.
\<close>

subsection \<open>Data\<close>

datatype State = WAIT | CREATED | CONNECTED | CLOSED

datatype IOEvent_Type = CONNECT | RECV | SEND

type_synonym byte = "8 word"

type_synonym addr = nat

text \<open>
  \<open>m_Socket = None\<close> is \<open>INVALID_SOCKET\<close>, \<open>m_pTPIO = None\<close> is \<open>NULL\<close>.
  The \<open>addrinfo\<close> list is a list of addresses; a pointer to one of its nodes is the
  rest of the list from that node on, and \<open>NULL\<close> is the empty list.
  The two buffers are arrays whose sizes are declared in Client.h; the size is the
  length of the list. The bytes the operating system stores in the receive buffer
  while a receive is in flight are not part of the model.
\<close>

record Client =
  m_pTPIO :: "nat option"
  m_Socket :: "nat option"
  m_State :: State
  m_infoList :: "addr list"
  m_info :: "addr list"
  m_recvBuffer :: "byte list"
  m_sendBuffer :: "byte list"

datatype sockopt = SO_REUSEADDR | SO_UPDATE_CONNECT_CONTEXT

text \<open>
  What an overlapped call returns: success, or failure with the last error. The answer of
  \<open>ConnectEx\<close> is a function of the address it is given; \<open>IsAlive_reply\<close> is the
  answer of the registry about the client of the event, and \<open>MAX_RECV_BUFFER\<close> the
  constant of that name in Client.h.
\<close>

datatype IoReply = Success | Error nat

definition ERROR_IO_PENDING :: nat where
  "ERROR_IO_PENDING = 997"

definition ERROR_SUCCESS :: nat where
  "ERROR_SUCCESS = 0"

record OS =
  CreateSocket_reply :: "nat option"
  setsockopt_reply :: "sockopt \<Rightarrow> bool"
  CreateThreadpoolIo_reply :: "nat option"
  sprintf_s_reply :: int
  getaddrinfo_reply :: "addr list option"
  ConnectEx_reply :: "addr \<Rightarrow> IoReply"
  WSARecv_reply :: IoReply
  WSASend_reply :: IoReply
  shutdown_reply :: bool
  GetLastError_reply :: nat
  IsAlive_reply :: bool
  MAX_RECV_BUFFER :: nat

text \<open>The calls a member function makes, in order.\<close>

datatype Event =
    IOEvent_Create IOEvent_Type
  | IOEvent_Destroy IOEvent_Type
  | StartThreadpoolIo
  | CancelThreadpoolIo
  | ConnectEx addr
  | WSARecv nat
  | WSASend nat
  | CreateSocket
  | setsockopt sockopt
  | CreateThreadpoolIo
  | getaddrinfo
  | shutdown
  | CloseSocket "nat option"
  | CancelIoEx "nat option"
  | WaitForThreadpoolIoCallbacks
  | CloseThreadpoolIo
  | PostRemoveClient
  | ERROR_CODE nat string
  | TRACE string

datatype error = AssertFailed | NullDereference | OutOfBounds

type_synonym 'a result = "error + 'a"

text \<open>Running a callee and then making further calls.\<close>

definition and_then :: "(Client \<times> Event list) result \<Rightarrow> Event list \<Rightarrow> (Client \<times> Event list) result" where
  "and_then r t1 = (case r of Inl e \<Rightarrow> Inl e | Inr (c, t) \<Rightarrow> Inr (c, t @ t1))"

definition after_calls :: "Event list \<Rightarrow> (Client \<times> Event list) result \<Rightarrow> (Client \<times> Event list) result" where
  "after_calls t0 r = (case r of Inl e \<Rightarrow> Inl e | Inr (c, t) \<Rightarrow> Inr (c, t0 @ t))"

definition returning :: "'a \<Rightarrow> (Client \<times> Event list) result \<Rightarrow> ('a \<times> Client \<times> Event list) result" where
  "returning v r = (case r of Inl e \<Rightarrow> Inl e | Inr (c, t) \<Rightarrow> Inr (v, c, t))"

subsection \<open>Create, Close, Destroy, Shutdown\<close>

text \<open>
  Create tests the socket and the state by \<open>assert\<close> only; here the asserts are checked
  (the build with assertions), in \<open>Create_NDEBUG\<close> below they are absent.
\<close>

definition Create :: "OS \<Rightarrow> int \<Rightarrow> Client \<Rightarrow> (bool \<times> Client \<times> Event list) result" where
  "Create os port c =
     (if m_Socket c \<noteq> None then Inl AssertFailed
      else if m_State c \<noteq> WAIT then Inl AssertFailed
      else
        let c1 = c\<lparr>m_Socket := CreateSocket_reply os\<rparr> in
        if m_Socket c1 = None then Inr (False, c1, [CreateSocket])
        else if \<not> setsockopt_reply os SO_REUSEADDR then
          Inr (False, c1,
            [CreateSocket, setsockopt SO_REUSEADDR,
             ERROR_CODE (GetLastError_reply os) ''setsockopt() failed with SO_REUSEADDR.''])
        else
          let c2 = c1\<lparr>m_pTPIO := CreateThreadpoolIo_reply os\<rparr> in
          if m_pTPIO c2 = None then
            Inr (False, c2,
              [CreateSocket, setsockopt SO_REUSEADDR, CreateThreadpoolIo,
               ERROR_CODE (GetLastError_reply os) ''CreateThreadpoolIo() failed.''])
          else
            Inr (True, c2\<lparr>m_State := CREATED\<rparr>,
              [CreateSocket, setsockopt SO_REUSEADDR, CreateThreadpoolIo]))"

definition Close :: "Client \<Rightarrow> Client \<times> Event list" where
  "Close c =
     (if m_State c \<noteq> CLOSED then
        (c\<lparr>m_State := CLOSED, m_Socket := None\<rparr>,
         [CloseSocket (m_Socket c), CancelIoEx (m_Socket c)])
      else (c, []))"

definition Destroy :: "Client \<Rightarrow> Client \<times> Event list" where
  "Destroy c =
     (let (c1, t) = Close c in
      if m_pTPIO c1 \<noteq> None then
        (c1\<lparr>m_pTPIO := None\<rparr>, t @ [WaitForThreadpoolIoCallbacks, CloseThreadpoolIo])
      else (c1, t))"

definition Shutdown :: "OS \<Rightarrow> Client \<Rightarrow> (bool \<times> Client \<times> Event list) result" where
  "Shutdown os c =
     (if m_State c \<noteq> CONNECTED then Inr (False, c, [])
      else if m_Socket c = None then Inl AssertFailed
      else if \<not> shutdown_reply os then
        Inr (False, c, [shutdown, ERROR_CODE (GetLastError_reply os) ''shutdown() failed.''])
      else Inr (True, c, [shutdown]))"

subsection \<open>Posting a receive and a send\<close>

text \<open>
  The test of PostReceive on the outcome of \<open>WSARecv\<close>: it returned
  \<open>SOCKET_ERROR\<close> and the last error is not \<open>ERROR_IO_PENDING\<close>.
\<close>

definition failed_now :: "IoReply \<Rightarrow> bool" where
  "failed_now r = (case r of Success \<Rightarrow> False | Error e \<Rightarrow> e \<noteq> ERROR_IO_PENDING)"

definition last_error :: "IoReply \<Rightarrow> nat" where
  "last_error r = (case r of Success \<Rightarrow> 0 | Error e \<Rightarrow> e)"

definition PostReceive :: "OS \<Rightarrow> Client \<Rightarrow> (Client \<times> Event list) result" where
  "PostReceive os c =
     (if m_State c = CLOSED then Inr (c, [PostRemoveClient])
      else if \<not> (m_State c = CREATED \<or> m_State c = CONNECTED) then Inl AssertFailed
      else if failed_now (WSARecv_reply os) then
        Inr (c,
          [IOEvent_Create RECV, StartThreadpoolIo, WSARecv (MAX_RECV_BUFFER os),
           CancelThreadpoolIo,
           ERROR_CODE (last_error (WSARecv_reply os))
             (if m_State c = CREATED then ''Server cannot accept this connection.''
              else ''WSARecv() failed.''),
           PostRemoveClient])
      else if m_State c = CREATED then
        Inr (c\<lparr>m_State := CONNECTED\<rparr>,
          [IOEvent_Create RECV, StartThreadpoolIo, WSARecv (MAX_RECV_BUFFER os),
           TRACE ''Connection from ip[%s], port[%d] to ip[%s], port[%d] succeeded.''])
      else
        Inr (c, [IOEvent_Create RECV, StartThreadpoolIo, WSARecv (MAX_RECV_BUFFER os)]))"

text \<open>
  \<open>memcpy(dst, src, n)\<close> on arrays: it reads \<open>n\<close> bytes of \<open>src\<close> and overwrites the
  first \<open>n\<close> bytes of \<open>dst\<close>; outside either array the behaviour is undefined.
\<close>

definition memcpy :: "byte list \<Rightarrow> byte list \<Rightarrow> nat \<Rightarrow> byte list result" where
  "memcpy dst src n =
     (if n \<le> length dst \<and> n \<le> length src then Inr (take n src @ drop n dst)
      else Inl OutOfBounds)"

definition PostSend :: "OS \<Rightarrow> byte list \<Rightarrow> nat \<Rightarrow> Client \<Rightarrow> (Client \<times> Event list) result" where
  "PostSend os buffer sz c =
     (if m_State c \<noteq> CONNECTED then Inr (c, [])
      else
        case memcpy (m_sendBuffer c) buffer sz of
          Inl e \<Rightarrow> Inl e
        | Inr b \<Rightarrow>
            let c1 = c\<lparr>m_sendBuffer := b\<rparr> in
            (case WSASend_reply os of
               Error e \<Rightarrow>
                 if e \<noteq> ERROR_IO_PENDING then
                   Inr (c1,
                     [IOEvent_Create SEND, StartThreadpoolIo, WSASend sz, CancelThreadpoolIo,
                      ERROR_CODE e ''WSASend() failed.'', PostRemoveClient])
                 else Inr (c1, [IOEvent_Create SEND, StartThreadpoolIo, WSASend sz])
             | Success \<Rightarrow> Inr (c1, [IOEvent_Create SEND, StartThreadpoolIo, WSASend sz])))"

subsection \<open>The handlers\<close>

definition OnConnect :: "OS \<Rightarrow> Client \<Rightarrow> (Client \<times> Event list) result" where
  "OnConnect os c =
     (if \<not> setsockopt_reply os SO_UPDATE_CONNECT_CONTEXT then
        Inr (c, [setsockopt SO_UPDATE_CONNECT_CONTEXT,
                 ERROR_CODE (GetLastError_reply os) ''setsockopt() failed.''])
      else after_calls [setsockopt SO_UPDATE_CONNECT_CONTEXT] (PostReceive os c))"

definition OnRecv :: "OS \<Rightarrow> nat \<Rightarrow> Client \<Rightarrow> (Client \<times> Event list) result" where
  "OnRecv os dwNumberOfBytesTransfered c =
     (if dwNumberOfBytesTransfered < length (m_recvBuffer c) then
        after_calls [TRACE ''OnRecv() : %s'']
          (PostReceive os (c\<lparr>m_recvBuffer := (m_recvBuffer c)[dwNumberOfBytesTransfered := 0]\<rparr>))
      else Inl OutOfBounds)"

definition OnSend :: "nat \<Rightarrow> Client \<Rightarrow> Client \<times> Event list" where
  "OnSend dwNumberOfBytesTransfered c = (c, [TRACE ''OnSend() : %d''])"

definition OnClose :: "Client \<Rightarrow> Client \<times> Event list" where
  "OnClose c = (c, [TRACE ''OnClose()''])"

subsection \<open>Posting a connect\<close>

text \<open>
  The loop of PostConnect over the candidates, from the node \<open>m_info\<close> points to.
  It ends when \<open>m_info\<close> is \<open>NULL\<close>, when a \<open>ConnectEx\<close> is pending, or when one
  succeeds at once.
\<close>

function connect_loop :: "OS \<Rightarrow> Client \<Rightarrow> (bool \<times> Client \<times> Event list) result" where
  "connect_loop os c =
     (case m_info c of
        [] \<Rightarrow> Inr (False, c, [IOEvent_Destroy CONNECT])
      | a # rest \<Rightarrow>
          (case ConnectEx_reply os a of
             Error e \<Rightarrow>
               if e \<noteq> ERROR_IO_PENDING then
                 (case connect_loop os (c\<lparr>m_info := rest\<rparr>) of
                    Inl err \<Rightarrow> Inl err
                  | Inr (b, c', t) \<Rightarrow>
                      Inr (b, c',
                        [StartThreadpoolIo, ConnectEx a, CancelThreadpoolIo,
                         ERROR_CODE e ''ConnectEx() failed.''] @ t))
               else Inr (True, c, [StartThreadpoolIo, ConnectEx a])
           | Success \<Rightarrow>
               returning True
                 (and_then (after_calls [StartThreadpoolIo, ConnectEx a] (OnConnect os c))
                    [IOEvent_Destroy CONNECT])))"
  by pat_completeness auto
termination
  by (relation "measure (\<lambda>(os, c). length (m_info c))") auto

definition PostConnect :: "OS \<Rightarrow> string \<Rightarrow> int \<Rightarrow> Client \<Rightarrow> (bool \<times> Client \<times> Event list) result" where
  "PostConnect os ip port c =
     (if m_State c \<noteq> CREATED then Inr (False, c, [])
      else if m_Socket c = None then Inl AssertFailed
      else if sprintf_s_reply os = - 1 then Inr (False, c, [])
      else
        case getaddrinfo_reply os of
          None \<Rightarrow>
            Inr (False, c\<lparr>m_infoList := []\<rparr>,
              [getaddrinfo, ERROR_CODE (GetLastError_reply os) ''getaddrinfo() failed.''])
        | Some l \<Rightarrow>
            (case connect_loop os (c\<lparr>m_infoList := l, m_info := l\<rparr>) of
               Inl err \<Rightarrow> Inl err
             | Inr (b, c', t) \<Rightarrow> Inr (b, c', [getaddrinfo, IOEvent_Create CONNECT] @ t)))"

subsection \<open>The completion callback\<close>

text \<open>
  The callback receives the event (here its type), the result of the operation and the
  number of bytes transferred. \<open>OnRecv\<close> takes a \<open>DWORD\<close>, so the count is cut to 32
  bits at the call.
\<close>

definition IoCompletionCallback ::
    "OS \<Rightarrow> IOEvent_Type \<Rightarrow> nat \<Rightarrow> nat \<Rightarrow> Client \<Rightarrow> (Client \<times> Event list) result" where
  "IoCompletionCallback os ty IoResult NumberOfBytesTransferred c =
     (if \<not> IsAlive_reply os then Inr (c, [IOEvent_Destroy ty])
      else if IoResult = ERROR_SUCCESS then
        (case ty of
           CONNECT \<Rightarrow> and_then (OnConnect os c) [IOEvent_Destroy ty]
         | RECV \<Rightarrow>
             if NumberOfBytesTransferred > 0 \<and> m_State c \<noteq> CLOSED then
               and_then (OnRecv os (NumberOfBytesTransferred mod 2 ^ 32) c) [IOEvent_Destroy ty]
             else
               (let (c1, t) = OnClose c in Inr (c1, t @ [PostRemoveClient, IOEvent_Destroy ty]))
         | SEND \<Rightarrow>
             (let (c1, t) = OnSend (NumberOfBytesTransferred mod 2 ^ 32) c
              in Inr (c1, t @ [IOEvent_Destroy ty])))
      else if ty = CONNECT then
        (case m_info c of
           [] \<Rightarrow> Inl NullDereference
         | a # rest \<Rightarrow>
             (case rest of
                [] \<Rightarrow>
                  Inr (c\<lparr>m_info := rest\<rparr>,
                    [ERROR_CODE IoResult ''I/O operation failed.'', PostRemoveClient,
                     IOEvent_Destroy ty])
              | b # rest' \<Rightarrow>
                  (case ConnectEx_reply os b of
                     Error e \<Rightarrow>
                       if e \<noteq> ERROR_IO_PENDING then
                         Inr (c\<lparr>m_info := rest\<rparr>,
                           [ERROR_CODE IoResult ''I/O operation failed.'', ConnectEx b,
                            ERROR_CODE IoResult ''I/O operation failed.'', PostRemoveClient,
                            IOEvent_Destroy ty])
                       else
                         Inr (c\<lparr>m_info := rest\<rparr>,
                           [ERROR_CODE IoResult ''I/O operation failed.'', ConnectEx b,
                            StartThreadpoolIo])
                   | Success \<Rightarrow>
                       and_then
                         (after_calls [ERROR_CODE IoResult ''I/O operation failed.'', ConnectEx b]
                            (OnConnect os (c\<lparr>m_info := rest\<rparr>)))
                         [IOEvent_Destroy ty])))
      else
        Inr (c, [ERROR_CODE IoResult ''I/O operation failed.'', PostRemoveClient,
                 IOEvent_Destroy ty]))"

subsection \<open>Sequences of calls\<close>



text \<open>
  A call of a member function from outside, or a completion delivered to the callback,
  each with the answers the operating system gives during it. A sequence of calls stops
  at the first one that ends the program; \<open>states_visited\<close> lists the state before
  the first call and after each call.
\<close>

datatype Call =
    Call_Create int
  | Call_PostConnect string int
  | Call_PostReceive
  | Call_PostSend "byte list" nat
  | Call_Shutdown
  | Call_Close
  | Call_Destroy
  | Completion IOEvent_Type nat nat

definition dropping :: "('a \<times> Client \<times> Event list) result \<Rightarrow> (Client \<times> Event list) result" where
  "dropping r = (case r of Inl e \<Rightarrow> Inl e | Inr (v, c, t) \<Rightarrow> Inr (c, t))"

fun step :: "OS \<Rightarrow> Call \<Rightarrow> Client \<Rightarrow> (Client \<times> Event list) result" where
  "step os (Call_Create port) c = dropping (Create os port c)"
| "step os (Call_PostConnect ip port) c = dropping (PostConnect os ip port c)"
| "step os Call_PostReceive c = PostReceive os c"
| "step os (Call_PostSend buffer sz) c = PostSend os buffer sz c"
| "step os Call_Shutdown c = dropping (Shutdown os c)"
| "step os Call_Close c = Inr (Close c)"
| "step os Call_Destroy c = Inr (Destroy c)"
| "step os (Completion ty IoResult n) c = IoCompletionCallback os ty IoResult n c"


subsection \<open>The build without assertions\<close>













subsection \<open>The constructor\<close>

text \<open>
  \<open>Client::Client()\<close>. The sizes of the two buffers are declared in Client.h, which
  is not among the sources: they are parameters here.
\<close>

definition Client_init :: "nat \<Rightarrow> nat \<Rightarrow> Client" where
  "Client_init recv_size send_size =
     \<lparr>m_pTPIO = None, m_Socket = None, m_State = WAIT, m_infoList = [], m_info = [],
      m_recvBuffer = replicate recv_size 0, m_sendBuffer = replicate send_size 0\<rparr>"

subsection \<open>Auxiliary notions\<close>

text \<open>The calls PostConnect makes for one candidate whose \<open>ConnectEx\<close> fails at once.\<close>

definition failed_attempt :: "OS \<Rightarrow> addr \<Rightarrow> Event list" where
  "failed_attempt os a =
     [StartThreadpoolIo, ConnectEx a, CancelThreadpoolIo,
      ERROR_CODE (last_error (ConnectEx_reply os a)) ''ConnectEx() failed.'']"

text \<open>
  A call did not close the client: it did not move the state to \<open>CLOSED\<close>, did not
  reset the socket handle, and did not call \<open>CloseSocket\<close>.
\<close>

fun is_CloseSocket :: "Event \<Rightarrow> bool" where
  "is_CloseSocket (CloseSocket s) = True"
| "is_CloseSocket e = False"

definition unreleased :: "Client \<Rightarrow> Client \<Rightarrow> Event list \<Rightarrow> bool" where
  "unreleased c c' t =
     ((m_State c' = CLOSED \<longrightarrow> m_State c = CLOSED)
      \<and> (m_Socket c' = None \<longrightarrow> m_Socket c = None)
      \<and> \<not> list_ex is_CloseSocket t)"

subsection \<open>Concrete inputs\<close>

text \<open>
  An operating system in which every overlapped call is pending, and clients with
  buffers of four bytes in the states \<open>CREATED\<close> and \<open>CONNECTED\<close>.
\<close>

definition os_pending :: OS where
  "os_pending =
     \<lparr>CreateSocket_reply = Some 1, setsockopt_reply = (\<lambda>_. True),
      CreateThreadpoolIo_reply = Some 2, sprintf_s_reply = 2,
      getaddrinfo_reply = Some [10, 11, 12], ConnectEx_reply = (\<lambda>_. Error ERROR_IO_PENDING),
      WSARecv_reply = Error ERROR_IO_PENDING, WSASend_reply = Error ERROR_IO_PENDING,
      shutdown_reply = True, GetLastError_reply = 0, IsAlive_reply = True,
      MAX_RECV_BUFFER = 4\<rparr>"

definition connected_client :: Client where
  "connected_client = (Client_init 4 4)\<lparr>m_pTPIO := Some 2, m_Socket := Some 1, m_State := CONNECTED\<rparr>"

definition created_client :: Client where
  "created_client = (Client_init 4 4)\<lparr>m_pTPIO := Some 2, m_Socket := Some 1, m_State := CREATED\<rparr>"

text \<open>
  Operating systems that refuse every connection, that refuse the first candidate only,
  that connect at once, that fail a receive or a send at once, and that fail the two
  later steps of Create; a client whose connect to the first of two candidates is in
  flight.
\<close>

definition os_refusing :: OS where
  "os_refusing = os_pending\<lparr>ConnectEx_reply := (\<lambda>a. Error 10061)\<rparr>"

definition os_second_pending :: OS where
  "os_second_pending =
     os_pending\<lparr>ConnectEx_reply := (\<lambda>a. if a = 10 then Error 10061 else Error ERROR_IO_PENDING)\<rparr>"

definition os_recv_reset :: OS where
  "os_recv_reset = os_pending\<lparr>WSARecv_reply := Error 10054\<rparr>"

definition os_send_reset :: OS where
  "os_send_reset = os_pending\<lparr>WSASend_reply := Error 10054\<rparr>"

definition os_no_reuse :: OS where
  "os_no_reuse = os_pending\<lparr>setsockopt_reply := (\<lambda>_. False)\<rparr>"

definition os_no_tpio :: OS where
  "os_no_tpio = os_pending\<lparr>CreateThreadpoolIo_reply := None\<rparr>"

definition os_connects_now :: OS where
  "os_connects_now = os_pending\<lparr>ConnectEx_reply := (\<lambda>a. Success)\<rparr>"

definition connecting_client :: Client where
  "connecting_client = created_client\<lparr>m_infoList := [10, 11], m_info := [10, 11]\<rparr>"



section \<open>Properties\<close>

declare connect_loop.simps [simp del]


text \<open>The fields of the concrete clients.\<close>

lemma client_fields:
  "m_State connected_client = CONNECTED" "m_State created_client = CREATED"
  "m_recvBuffer connected_client = [0, 0, 0, 0]" "m_sendBuffer connected_client = [0, 0, 0, 0]"
  "m_Socket connected_client = Some 1" "m_Socket created_client = Some 1"
  by (simp_all add: connected_client_def created_client_def Client_init_def numeral_eq_Suc)

subsection \<open>The state only moves forward\<close>


















subsection \<open>The state in the build without assertions\<close>



















subsection \<open>The liveness gate\<close>

text \<open>
  C2: a completion delivered for a client that the registry does not report alive only
  returns the event to the pool: the callback makes no other call and leaves the client
  as it was.
\<close>

theorem liveness_gate:
  "\<not> IsAlive_reply os \<Longrightarrow> IoCompletionCallback os ty IoResult n c = Inr (c, [IOEvent_Destroy ty])"
  by (simp add: IoCompletionCallback_def)

theorem liveness_gate_witness:
  "\<not> IsAlive_reply (os_pending\<lparr>IsAlive_reply := False\<rparr>)
   \<and> IoCompletionCallback (os_pending\<lparr>IsAlive_reply := False\<rparr>) RECV ERROR_SUCCESS 3 connected_client
       = Inr (connected_client, [IOEvent_Destroy RECV])"
  using liveness_gate [of "os_pending\<lparr>IsAlive_reply := False\<rparr>" RECV ERROR_SUCCESS 3 connected_client]
  by simp

subsection \<open>Receive completions\<close>

lemma PostReceive_open:
  "m_State c = CREATED \<or> m_State c = CONNECTED \<Longrightarrow>
   \<exists>c' rest. PostReceive os c = Inr (c', [IOEvent_Create RECV, StartThreadpoolIo, WSARecv (MAX_RECV_BUFFER os)] @ rest)"
  by (auto simp: PostReceive_def)

text \<open>
  C5: for a successful receive completion of a client the registry reports alive:
  with more than zero bytes and a state other than \<open>CLOSED\<close> the callback calls
  \<open>OnRecv\<close> and then returns the event to the pool, and (the count being inside the
  buffer and the state \<open>CREATED\<close> or \<open>CONNECTED\<close>) the first thing \<open>OnRecv\<close> does
  after its trace line is to post the next receive; with zero bytes, or in state
  \<open>CLOSED\<close>, the callback calls \<open>OnClose\<close> and asks the registry to remove the client,
  and logs no error.
\<close>

theorem receive_completion:
  assumes alive: "IsAlive_reply os"
  shows "(0 < n \<and> m_State c \<noteq> CLOSED \<longrightarrow>
            IoCompletionCallback os RECV ERROR_SUCCESS n c
              = and_then (OnRecv os (n mod 2 ^ 32) c) [IOEvent_Destroy RECV])
       \<and> (0 < n \<and> (m_State c = CREATED \<or> m_State c = CONNECTED)
            \<and> n mod 2 ^ 32 < length (m_recvBuffer c) \<longrightarrow>
            (\<exists>c' rest. IoCompletionCallback os RECV ERROR_SUCCESS n c
               = Inr (c', [TRACE ''OnRecv() : %s'', IOEvent_Create RECV, StartThreadpoolIo,
                           WSARecv (MAX_RECV_BUFFER os)] @ rest @ [IOEvent_Destroy RECV])))
       \<and> (n = 0 \<or> m_State c = CLOSED \<longrightarrow>
            IoCompletionCallback os RECV ERROR_SUCCESS n c
              = Inr (c, [TRACE ''OnClose()'', PostRemoveClient, IOEvent_Destroy RECV]))"
proof (intro conjI impI)
  assume "0 < n \<and> m_State c \<noteq> CLOSED"
  with alive show "IoCompletionCallback os RECV ERROR_SUCCESS n c
      = and_then (OnRecv os (n mod 2 ^ 32) c) [IOEvent_Destroy RECV]"
    by (simp add: IoCompletionCallback_def)
next
  assume h: "0 < n \<and> (m_State c = CREATED \<or> m_State c = CONNECTED)
    \<and> n mod 2 ^ 32 < length (m_recvBuffer c)"
  let ?c1 = "c\<lparr>m_recvBuffer := (m_recvBuffer c)[n mod 2 ^ 32 := 0]\<rparr>"
  from h have "m_State ?c1 = CREATED \<or> m_State ?c1 = CONNECTED" by simp
  from PostReceive_open [OF this, of os] obtain c' rest where
    "PostReceive os ?c1 = Inr (c', [IOEvent_Create RECV, StartThreadpoolIo, WSARecv (MAX_RECV_BUFFER os)] @ rest)"
    by blast
  with alive h have "IoCompletionCallback os RECV ERROR_SUCCESS n c
      = Inr (c', [TRACE ''OnRecv() : %s'', IOEvent_Create RECV, StartThreadpoolIo,
                 WSARecv (MAX_RECV_BUFFER os)] @ rest @ [IOEvent_Destroy RECV])"
    by (auto simp: IoCompletionCallback_def OnRecv_def and_then_def after_calls_def)
  then show "\<exists>c' rest. IoCompletionCallback os RECV ERROR_SUCCESS n c
      = Inr (c', [TRACE ''OnRecv() : %s'', IOEvent_Create RECV, StartThreadpoolIo,
                 WSARecv (MAX_RECV_BUFFER os)] @ rest @ [IOEvent_Destroy RECV])"
    by blast
next
  assume "n = 0 \<or> m_State c = CLOSED"
  with alive show "IoCompletionCallback os RECV ERROR_SUCCESS n c
      = Inr (c, [TRACE ''OnClose()'', PostRemoveClient, IOEvent_Destroy RECV])"
    by (auto simp: IoCompletionCallback_def OnClose_def)
qed

lemma connected_client_simps:
  "m_State connected_client = CONNECTED" "length (m_recvBuffer connected_client) = 4"
  "m_recvBuffer connected_client = [0, 0, 0, 0]"
  by (simp_all add: connected_client_def Client_init_def numeral_eq_Suc)

theorem receive_completion_witness:
  "IsAlive_reply os_pending
   \<and> IoCompletionCallback os_pending RECV ERROR_SUCCESS 3 connected_client
       = Inr (connected_client,
           [TRACE ''OnRecv() : %s'', IOEvent_Create RECV, StartThreadpoolIo, WSARecv 4,
            IOEvent_Destroy RECV])
   \<and> IoCompletionCallback os_pending RECV ERROR_SUCCESS 0 connected_client
       = Inr (connected_client, [TRACE ''OnClose()'', PostRemoveClient, IOEvent_Destroy RECV])"
proof -
  have a: "IsAlive_reply os_pending" by (simp add: os_pending_def)
  have r: "OnRecv os_pending 3 connected_client
      = Inr (connected_client, [TRACE ''OnRecv() : %s'', IOEvent_Create RECV, StartThreadpoolIo, WSARecv 4])"
    by (simp add: OnRecv_def PostReceive_def after_calls_def connected_client_simps
        connected_client_def Client_init_def os_pending_def failed_now_def numeral_eq_Suc)
  from receive_completion [OF a, of 3 connected_client] r
  have 1: "IoCompletionCallback os_pending RECV ERROR_SUCCESS 3 connected_client
       = Inr (connected_client,
           [TRACE ''OnRecv() : %s'', IOEvent_Create RECV, StartThreadpoolIo, WSARecv 4,
            IOEvent_Destroy RECV])"
    by (simp add: connected_client_simps and_then_def)
  from receive_completion [OF a, of 0 connected_client]
  have 2: "IoCompletionCallback os_pending RECV ERROR_SUCCESS 0 connected_client
       = Inr (connected_client, [TRACE ''OnClose()'', PostRemoveClient, IOEvent_Destroy RECV])"
    by simp
  from a 1 2 show ?thesis by simp
qed
subsection \<open>The candidates of PostConnect\<close>

lemma connect_loop_Nil:
  "m_info c = [] \<Longrightarrow> connect_loop os c = Inr (False, c, [IOEvent_Destroy CONNECT])"
  by (simp add: connect_loop.simps [of os c])

lemma connect_loop_failed:
  "m_info c = a # rest \<Longrightarrow> failed_now (ConnectEx_reply os a) \<Longrightarrow>
   connect_loop os c =
     (case connect_loop os (c\<lparr>m_info := rest\<rparr>) of
        Inl err \<Rightarrow> Inl err
      | Inr (b, c', t) \<Rightarrow> Inr (b, c', failed_attempt os a @ t))"
  by (auto simp: connect_loop.simps [of os c] failed_now_def failed_attempt_def last_error_def
      split: IoReply.splits sum.splits)

lemma connect_loop_pending:
  "m_info c = a # rest \<Longrightarrow> ConnectEx_reply os a = Error ERROR_IO_PENDING \<Longrightarrow>
   connect_loop os c = Inr (True, c, [StartThreadpoolIo, ConnectEx a])"
  by (simp add: connect_loop.simps [of os c])

lemma connect_loop_success:
  "m_info c = a # rest \<Longrightarrow> ConnectEx_reply os a = Success \<Longrightarrow>
   connect_loop os c =
     returning True
       (and_then (after_calls [StartThreadpoolIo, ConnectEx a] (OnConnect os c))
          [IOEvent_Destroy CONNECT])"
  by (simp add: connect_loop.simps [of os c])

lemma connect_loop_prefix:
  "m_info c = pre @ l \<Longrightarrow> \<forall>x\<in>set pre. failed_now (ConnectEx_reply os x) \<Longrightarrow>
   connect_loop os c =
     (case connect_loop os (c\<lparr>m_info := l\<rparr>) of
        Inl err \<Rightarrow> Inl err
      | Inr (b, c', t) \<Rightarrow> Inr (b, c', concat (map (failed_attempt os) pre) @ t))"
proof (induction pre arbitrary: c)
  case Nil
  then have "c\<lparr>m_info := l\<rparr> = c" by simp
  then show ?case by (simp split: sum.splits)
next
  case (Cons a pre)
  from Cons.prems have 1: "m_info c = a # (pre @ l)" and 2: "failed_now (ConnectEx_reply os a)"
    by simp_all
  have 3: "m_info (c\<lparr>m_info := pre @ l\<rparr>) = pre @ l" by simp
  from Cons.prems have 4: "\<forall>x\<in>set pre. failed_now (ConnectEx_reply os x)" by simp
  show ?case
    by (simp add: connect_loop_failed [OF 1 2] Cons.IH [OF 3 4] split: sum.splits)
qed

lemma OnConnect_created:
  "m_State c = CREATED \<Longrightarrow> \<exists>c' t. OnConnect os c = Inr (c', t)"
  by (auto simp: OnConnect_def PostReceive_def after_calls_def)

lemma connect_loop_False:
  "connect_loop os c = Inr (False, c', t) \<Longrightarrow>
   (\<forall>a\<in>set (m_info c). failed_now (ConnectEx_reply os a)) \<and> m_State c' = m_State c"
proof (induction os c arbitrary: c' t rule: connect_loop.induct)
  case (1 os c)
  show ?case
  proof (cases "m_info c")
    case Nil
    with "1.prems" show ?thesis by (simp add: connect_loop_Nil)
  next
    case (Cons a rest)
    show ?thesis
    proof (cases "ConnectEx_reply os a")
      case Success
      with Cons "1.prems" show ?thesis
        by (simp add: connect_loop_success returning_def split: sum.splits)
    next
      case (Error e)
      show ?thesis
      proof (cases "e = ERROR_IO_PENDING")
        case True
        with Cons Error "1.prems" show ?thesis by (simp add: connect_loop_pending)
      next
        case False
        with Error have f: "failed_now (ConnectEx_reply os a)" by (simp add: failed_now_def)
        with Cons "1.prems" obtain t' where
          "connect_loop os (c\<lparr>m_info := rest\<rparr>) = Inr (False, c', t')"
          by (auto simp: connect_loop_failed split: sum.splits)
        from "1.IH" [OF Cons Error False this] f Cons show ?thesis by simp
      qed
    qed
  qed
qed

lemma count_failed_attempts:
  "count_list (concat (map (failed_attempt os) l)) (setsockopt k) = 0"
  "count_list (concat (map (failed_attempt os) l)) (IOEvent_Destroy ty) = 0"
  by (induction l) (simp_all add: failed_attempt_def)

lemma OnConnect_counts:
  "OnConnect os c = Inr (c', t) \<Longrightarrow>
   count_list t (setsockopt SO_UPDATE_CONNECT_CONTEXT) = 1 \<and> count_list t (IOEvent_Destroy ty) = 0"
  by (auto simp: OnConnect_def PostReceive_def after_calls_def split: if_splits sum.splits)

text \<open>
  C3: in state \<open>CREATED\<close>, with the candidates \<open>l\<close> resolved, PostConnect tries the
  candidates in order from the first. Each candidate whose \<open>ConnectEx\<close> fails at once
  has its notification cancelled and the next one is tried. At the first candidate that
  is pending it returns true, keeping the event; at the first one that succeeds at once it
  calls \<open>OnConnect\<close> once, returns the event to the pool and returns true. When every
  candidate has failed it returns the event to the pool and returns false. It returns
  false only then, and the state is still \<open>CREATED\<close>.
\<close>

theorem PostConnect_candidates:
  assumes st: "m_State c = CREATED" and sock: "m_Socket c \<noteq> None"
    and fmt: "sprintf_s_reply os \<noteq> - 1" and res: "getaddrinfo_reply os = Some l"
  shows "((\<forall>a\<in>set l. failed_now (ConnectEx_reply os a)) \<longrightarrow>
            PostConnect os ip port c
              = Inr (False, c\<lparr>m_infoList := l, m_info := []\<rparr>,
                  [getaddrinfo, IOEvent_Create CONNECT] @ concat (map (failed_attempt os) l)
                  @ [IOEvent_Destroy CONNECT]))
       \<and> (l = pre @ a # post \<and> (\<forall>x\<in>set pre. failed_now (ConnectEx_reply os x))
            \<and> ConnectEx_reply os a = Error ERROR_IO_PENDING \<longrightarrow>
            PostConnect os ip port c
              = Inr (True, c\<lparr>m_infoList := l, m_info := a # post\<rparr>,
                  [getaddrinfo, IOEvent_Create CONNECT] @ concat (map (failed_attempt os) pre)
                  @ [StartThreadpoolIo, ConnectEx a]))
       \<and> (l = pre @ a # post \<and> (\<forall>x\<in>set pre. failed_now (ConnectEx_reply os x))
            \<and> ConnectEx_reply os a = Success \<longrightarrow>
            (\<exists>c' t. OnConnect os (c\<lparr>m_infoList := l, m_info := a # post\<rparr>) = Inr (c', t)
               \<and> PostConnect os ip port c
                 = Inr (True, c',
                     [getaddrinfo, IOEvent_Create CONNECT] @ concat (map (failed_attempt os) pre)
                     @ [StartThreadpoolIo, ConnectEx a] @ t @ [IOEvent_Destroy CONNECT])
               \<and> count_list
                   ([getaddrinfo, IOEvent_Create CONNECT] @ concat (map (failed_attempt os) pre)
                     @ [StartThreadpoolIo, ConnectEx a] @ t @ [IOEvent_Destroy CONNECT])
                   (setsockopt SO_UPDATE_CONNECT_CONTEXT) = 1
               \<and> count_list
                   ([getaddrinfo, IOEvent_Create CONNECT] @ concat (map (failed_attempt os) pre)
                     @ [StartThreadpoolIo, ConnectEx a] @ t @ [IOEvent_Destroy CONNECT])
                   (IOEvent_Destroy CONNECT) = 1))
       \<and> (PostConnect os ip port c = Inr (False, c', t') \<longrightarrow>
            (\<forall>a\<in>set l. failed_now (ConnectEx_reply os a)) \<and> m_State c' = CREATED
            \<and> count_list t' (IOEvent_Destroy CONNECT) = 1)"
proof -
  let ?c0 = "c\<lparr>m_infoList := l, m_info := l\<rparr>"
  have pc: "PostConnect os ip port c =
      (case connect_loop os ?c0 of
         Inl err \<Rightarrow> Inl err
       | Inr (b, c', t) \<Rightarrow> Inr (b, c', [getaddrinfo, IOEvent_Create CONNECT] @ t))"
    using st sock fmt res by (auto simp: PostConnect_def)
  have p1: "PostConnect os ip port c
        = Inr (False, c\<lparr>m_infoList := l, m_info := []\<rparr>,
            [getaddrinfo, IOEvent_Create CONNECT] @ concat (map (failed_attempt os) l)
            @ [IOEvent_Destroy CONNECT])"
    if "\<forall>a\<in>set l. failed_now (ConnectEx_reply os a)"
  proof -
    have "m_info ?c0 = l @ []" by simp
    from connect_loop_prefix [OF this that]
    show ?thesis by (simp add: pc connect_loop_Nil)
  qed
  have pre_eq: "connect_loop os ?c0 =
      (case connect_loop os (c\<lparr>m_infoList := l, m_info := a # post\<rparr>) of
         Inl err \<Rightarrow> Inl err
       | Inr (b, c', t) \<Rightarrow> Inr (b, c', concat (map (failed_attempt os) pre) @ t))"
    if "l = pre @ a # post" "\<forall>x\<in>set pre. failed_now (ConnectEx_reply os x)"
  proof -
    from that(1) have "m_info ?c0 = pre @ a # post" by simp
    from connect_loop_prefix [OF this that(2)] show ?thesis by simp
  qed
  have p2: "PostConnect os ip port c
        = Inr (True, c\<lparr>m_infoList := l, m_info := a # post\<rparr>,
            [getaddrinfo, IOEvent_Create CONNECT] @ concat (map (failed_attempt os) pre)
            @ [StartThreadpoolIo, ConnectEx a])"
    if "l = pre @ a # post" "\<forall>x\<in>set pre. failed_now (ConnectEx_reply os x)"
      "ConnectEx_reply os a = Error ERROR_IO_PENDING"
  proof -
    have "m_info (c\<lparr>m_infoList := l, m_info := a # post\<rparr>) = a # post" by simp
    from connect_loop_pending [OF this that(3)] pre_eq [OF that(1,2)]
    show ?thesis by (simp add: pc)
  qed
  have p3: "\<exists>c' t. OnConnect os (c\<lparr>m_infoList := l, m_info := a # post\<rparr>) = Inr (c', t)
         \<and> PostConnect os ip port c
           = Inr (True, c',
               [getaddrinfo, IOEvent_Create CONNECT] @ concat (map (failed_attempt os) pre)
               @ [StartThreadpoolIo, ConnectEx a] @ t @ [IOEvent_Destroy CONNECT])
         \<and> count_list
             ([getaddrinfo, IOEvent_Create CONNECT] @ concat (map (failed_attempt os) pre)
               @ [StartThreadpoolIo, ConnectEx a] @ t @ [IOEvent_Destroy CONNECT])
             (setsockopt SO_UPDATE_CONNECT_CONTEXT) = 1
         \<and> count_list
             ([getaddrinfo, IOEvent_Create CONNECT] @ concat (map (failed_attempt os) pre)
               @ [StartThreadpoolIo, ConnectEx a] @ t @ [IOEvent_Destroy CONNECT])
             (IOEvent_Destroy CONNECT) = 1"
    if "l = pre @ a # post" "\<forall>x\<in>set pre. failed_now (ConnectEx_reply os x)"
      "ConnectEx_reply os a = Success"
  proof -
    let ?c1 = "c\<lparr>m_infoList := l, m_info := a # post\<rparr>"
    have "m_State ?c1 = CREATED" using st by simp
    from OnConnect_created [OF this, of os] obtain c' t where oc: "OnConnect os ?c1 = Inr (c', t)"
      by blast
    have "m_info ?c1 = a # post" by simp
    from connect_loop_success [OF this that(3)] pre_eq [OF that(1,2)] oc
    have eq: "PostConnect os ip port c
           = Inr (True, c',
               [getaddrinfo, IOEvent_Create CONNECT] @ concat (map (failed_attempt os) pre)
               @ [StartThreadpoolIo, ConnectEx a] @ t @ [IOEvent_Destroy CONNECT])"
      by (simp add: pc returning_def and_then_def after_calls_def)
    from OnConnect_counts [OF oc, of CONNECT]
    have "count_list
             ([getaddrinfo, IOEvent_Create CONNECT] @ concat (map (failed_attempt os) pre)
               @ [StartThreadpoolIo, ConnectEx a] @ t @ [IOEvent_Destroy CONNECT])
             (setsockopt SO_UPDATE_CONNECT_CONTEXT) = 1"
      and "count_list
             ([getaddrinfo, IOEvent_Create CONNECT] @ concat (map (failed_attempt os) pre)
               @ [StartThreadpoolIo, ConnectEx a] @ t @ [IOEvent_Destroy CONNECT])
             (IOEvent_Destroy CONNECT) = 1"
      by (simp_all add: count_failed_attempts)
    with oc eq show ?thesis by blast
  qed
  have p4: "(\<forall>a\<in>set l. failed_now (ConnectEx_reply os a)) \<and> m_State c' = CREATED
      \<and> count_list t' (IOEvent_Destroy CONNECT) = 1"
    if "PostConnect os ip port c = Inr (False, c', t')"
  proof -
    from that obtain t where "connect_loop os ?c0 = Inr (False, c', t)"
      by (auto simp: pc split: sum.splits)
    from connect_loop_False [OF this] st
    have f: "\<forall>a\<in>set l. failed_now (ConnectEx_reply os a)" and s: "m_State c' = CREATED"
      by simp_all
    from p1 [OF f] that have "t' = [getaddrinfo, IOEvent_Create CONNECT]
        @ concat (map (failed_attempt os) l) @ [IOEvent_Destroy CONNECT]"
      by simp
    then have "count_list t' (IOEvent_Destroy CONNECT) = 1"
      by (simp add: count_failed_attempts)
    with f s show ?thesis by simp
  qed
  from p1 p2 p3 p4 show ?thesis by blast
qed

theorem PostConnect_candidates_witness:
  "m_State created_client = CREATED \<and> m_Socket created_client = Some 1
   \<and> getaddrinfo_reply os_refusing = Some [10, 11, 12]
   \<and> PostConnect os_refusing ''host'' 80 created_client
       = Inr (False, created_client\<lparr>m_infoList := [10, 11, 12], m_info := []\<rparr>,
           [getaddrinfo, IOEvent_Create CONNECT,
            StartThreadpoolIo, ConnectEx 10, CancelThreadpoolIo, ERROR_CODE 10061 ''ConnectEx() failed.'',
            StartThreadpoolIo, ConnectEx 11, CancelThreadpoolIo, ERROR_CODE 10061 ''ConnectEx() failed.'',
            StartThreadpoolIo, ConnectEx 12, CancelThreadpoolIo, ERROR_CODE 10061 ''ConnectEx() failed.'',
            IOEvent_Destroy CONNECT])
   \<and> PostConnect os_second_pending ''host'' 80 created_client
       = Inr (True, created_client\<lparr>m_infoList := [10, 11, 12], m_info := [11, 12]\<rparr>,
           [getaddrinfo, IOEvent_Create CONNECT,
            StartThreadpoolIo, ConnectEx 10, CancelThreadpoolIo, ERROR_CODE 10061 ''ConnectEx() failed.'',
            StartThreadpoolIo, ConnectEx 11])"
proof -
  have st: "m_State created_client = CREATED" and so: "m_Socket created_client = Some 1"
    by (simp_all add: created_client_def)
  have so': "m_Socket created_client \<noteq> None" using so by simp
  have f1: "sprintf_s_reply os_refusing \<noteq> - 1" and g1: "getaddrinfo_reply os_refusing = Some [10, 11, 12]"
    by (simp_all add: os_refusing_def os_pending_def)
  have f2: "sprintf_s_reply os_second_pending \<noteq> - 1"
    and g2: "getaddrinfo_reply os_second_pending = Some [10, 11, 12]"
    by (simp_all add: os_second_pending_def os_pending_def)
  have r1: "\<forall>a\<in>set [10, 11, 12]. failed_now (ConnectEx_reply os_refusing a)"
    by (simp add: os_refusing_def failed_now_def ERROR_IO_PENDING_def)
  have r2: "[10, 11, 12] = [10] @ 11 # [12::nat]
      \<and> (\<forall>x\<in>set [10]. failed_now (ConnectEx_reply os_second_pending x))
      \<and> ConnectEx_reply os_second_pending 11 = Error ERROR_IO_PENDING"
    by (simp add: os_second_pending_def failed_now_def ERROR_IO_PENDING_def)
  from PostConnect_candidates [OF st so' f1 g1, of "''host''" 80] r1
  have 1: "PostConnect os_refusing ''host'' 80 created_client
       = Inr (False, created_client\<lparr>m_infoList := [10, 11, 12], m_info := []\<rparr>,
           [getaddrinfo, IOEvent_Create CONNECT] @ concat (map (failed_attempt os_refusing) [10, 11, 12])
           @ [IOEvent_Destroy CONNECT])"
    by blast
  from PostConnect_candidates [OF st so' f2 g2, of "''host''" 80 "[10]" 11 "[12]"] r2
  have 2: "PostConnect os_second_pending ''host'' 80 created_client
       = Inr (True, created_client\<lparr>m_infoList := [10, 11, 12], m_info := [11, 12]\<rparr>,
           [getaddrinfo, IOEvent_Create CONNECT] @ concat (map (failed_attempt os_second_pending) [10])
           @ [StartThreadpoolIo, ConnectEx 11])"
    by blast
  have a1: "failed_attempt os_refusing x
      = [StartThreadpoolIo, ConnectEx x, CancelThreadpoolIo, ERROR_CODE 10061 ''ConnectEx() failed.'']" for x
    by (simp add: failed_attempt_def os_refusing_def last_error_def)
  have a2: "failed_attempt os_second_pending 10
      = [StartThreadpoolIo, ConnectEx 10, CancelThreadpoolIo, ERROR_CODE 10061 ''ConnectEx() failed.'']"
    by (simp add: failed_attempt_def os_second_pending_def last_error_def)
  from st so g1 1 2 show ?thesis by (simp add: a1 a2)
qed

subsection \<open>The close handler\<close>

lemma unreleased_refl: "unreleased c c []"
  by (simp add: unreleased_def)

lemma PostReceive_unreleased:
  "PostReceive os c = Inr (c', t) \<Longrightarrow> unreleased c c' t"
  by (auto simp: PostReceive_def unreleased_def split: if_splits)

lemma OnConnect_unreleased:
  "OnConnect os c = Inr (c', t) \<Longrightarrow> unreleased c c' t"
  by (auto simp: OnConnect_def after_calls_def PostReceive_def unreleased_def
      split: if_splits sum.splits)

lemma OnRecv_unreleased:
  "OnRecv os n c = Inr (c', t) \<Longrightarrow> unreleased c c' t"
  by (auto simp: OnRecv_def after_calls_def PostReceive_def unreleased_def
      split: if_splits sum.splits)

lemma unreleased_failed_attempt:
  "unreleased c1 c' t \<Longrightarrow> m_State c1 = m_State c \<Longrightarrow> m_Socket c1 = m_Socket c \<Longrightarrow>
   unreleased c c' (failed_attempt os a @ t)"
  by (simp add: unreleased_def failed_attempt_def)

lemma connect_loop_unreleased:
  "connect_loop os c = Inr (b, c', t) \<Longrightarrow> unreleased c c' t"
proof (induction os c arbitrary: b c' t rule: connect_loop.induct)
  case (1 os c)
  show ?case
  proof (cases "m_info c")
    case Nil
    with "1.prems" show ?thesis by (auto simp: connect_loop_Nil unreleased_def)
  next
    case (Cons a rest)
    show ?thesis
    proof (cases "ConnectEx_reply os a")
      case Success
      with Cons "1.prems" obtain t0 where oc: "OnConnect os c = Inr (c', t0)"
        and t: "t = [StartThreadpoolIo, ConnectEx a] @ t0 @ [IOEvent_Destroy CONNECT]"
        by (auto simp: connect_loop_success returning_def and_then_def after_calls_def
            split: sum.splits)
      from OnConnect_unreleased [OF oc] t show ?thesis by (simp add: unreleased_def)
    next
      case (Error e)
      show ?thesis
      proof (cases "e = ERROR_IO_PENDING")
        case True
        with Cons Error "1.prems" show ?thesis
          by (auto simp: connect_loop_pending unreleased_def)
      next
        case False
        with Error have f: "failed_now (ConnectEx_reply os a)" by (simp add: failed_now_def)
        with Cons "1.prems" obtain t1 where
          r: "connect_loop os (c\<lparr>m_info := rest\<rparr>) = Inr (b, c', t1)"
          and t: "t = failed_attempt os a @ t1"
          by (auto simp: connect_loop_failed split: sum.splits)
        from "1.IH" [OF Cons Error False r] have "unreleased (c\<lparr>m_info := rest\<rparr>) c' t1" .
        from unreleased_failed_attempt [OF this, of c os a] t show ?thesis by simp
      qed
    qed
  qed
qed

lemma PostConnect_unreleased:
  "PostConnect os ip port c = Inr (b, c', t) \<Longrightarrow> unreleased c c' t"
proof -
  assume a: "PostConnect os ip port c = Inr (b, c', t)"
  show ?thesis
  proof (cases "getaddrinfo_reply os")
    case None
    with a show ?thesis by (auto simp: PostConnect_def unreleased_def split: if_splits)
  next
    case (Some l)
    show ?thesis
    proof (cases "m_State c = CREATED \<and> m_Socket c \<noteq> None \<and> sprintf_s_reply os \<noteq> - 1")
      case False
      with a show ?thesis by (auto simp: PostConnect_def unreleased_def split: if_splits)
    next
      case True
      with a Some obtain t1 where
        r: "connect_loop os (c\<lparr>m_infoList := l, m_info := l\<rparr>) = Inr (b, c', t1)"
        and t: "t = [getaddrinfo, IOEvent_Create CONNECT] @ t1"
        by (auto simp: PostConnect_def split: sum.splits)
      from connect_loop_unreleased [OF r] t show ?thesis by (simp add: unreleased_def)
    qed
  qed
qed

lemma Create_unreleased:
  "Create os port c = Inr (b, c', t) \<Longrightarrow> unreleased c c' t"
  by (auto simp: Create_def Let_def unreleased_def split: if_splits)

lemma PostSend_unreleased:
  "PostSend os buffer sz c = Inr (c', t) \<Longrightarrow> unreleased c c' t"
  by (auto simp: PostSend_def Let_def unreleased_def split: if_splits sum.splits IoReply.splits)

lemma Shutdown_unreleased:
  "Shutdown os c = Inr (b, c', t) \<Longrightarrow> unreleased c c' t"
  by (auto simp: Shutdown_def unreleased_def split: if_splits)

lemma unreleased_and_then_Destroy:
  "unreleased c c' t \<Longrightarrow> unreleased c c' (t @ [IOEvent_Destroy ty])"
  by (simp add: unreleased_def)

lemma IoCompletionCallback_unreleased:
  "IoCompletionCallback os ty r n c = Inr (c', t) \<Longrightarrow> unreleased c c' t"
proof -
  assume a: "IoCompletionCallback os ty r n c = Inr (c', t)"
  show ?thesis
  proof (cases "IsAlive_reply os")
    case False
    with a show ?thesis by (auto simp: IoCompletionCallback_def unreleased_def)
  next
    case alive: True
    show ?thesis
    proof (cases "r = ERROR_SUCCESS")
      case True
      show ?thesis
      proof (cases ty)
        case CONNECT
        with a alive True obtain t0 where "OnConnect os c = Inr (c', t0)" "t = t0 @ [IOEvent_Destroy ty]"
          by (auto simp: IoCompletionCallback_def and_then_def split: sum.splits)
        with OnConnect_unreleased [of os c c' t0] show ?thesis
          by (simp add: unreleased_and_then_Destroy)
      next
        case RECV
        show ?thesis
        proof (cases "0 < n \<and> m_State c \<noteq> CLOSED")
          case True
          with a alive \<open>r = ERROR_SUCCESS\<close> RECV obtain t0 where
            "OnRecv os (n mod 2 ^ 32) c = Inr (c', t0)" "t = t0 @ [IOEvent_Destroy ty]"
            by (auto simp: IoCompletionCallback_def and_then_def split: sum.splits)
          with OnRecv_unreleased [of os "n mod 2 ^ 32" c c' t0] show ?thesis
            by (simp add: unreleased_and_then_Destroy)
        next
          case False
          with a alive \<open>r = ERROR_SUCCESS\<close> RECV show ?thesis
            by (auto simp: IoCompletionCallback_def OnClose_def unreleased_def)
        qed
      next
        case SEND
        with a alive True show ?thesis
          by (auto simp: IoCompletionCallback_def OnSend_def unreleased_def)
      qed
    next
      case False
      show ?thesis
      proof (cases "ty = CONNECT")
        case nc: False
        with a alive False show ?thesis
          by (auto simp: IoCompletionCallback_def unreleased_def)
      next
        case True
        show ?thesis
        proof (cases "m_info c")
          case Nil
          with a alive False True show ?thesis by (simp add: IoCompletionCallback_def)
        next
          case (Cons x rest)
          show ?thesis
          proof (cases rest)
            case Nil
            with a alive False True Cons show ?thesis
              by (auto simp: IoCompletionCallback_def unreleased_def)
          next
            case (Cons b rest')
            show ?thesis
            proof (cases "ConnectEx_reply os b")
              case (Error e)
              with a alive False True \<open>m_info c = x # rest\<close> Cons show ?thesis
                by (auto simp: IoCompletionCallback_def unreleased_def split: if_splits)
            next
              case Success
              with a alive False True \<open>m_info c = x # rest\<close> Cons obtain t0 where
                oc: "OnConnect os (c\<lparr>m_info := rest\<rparr>) = Inr (c', t0)"
                and t: "t = [ERROR_CODE r ''I/O operation failed.'', ConnectEx b] @ t0 @ [IOEvent_Destroy ty]"
                by (auto simp: IoCompletionCallback_def and_then_def after_calls_def
                    split: sum.splits)
              from OnConnect_unreleased [OF oc] t show ?thesis by (simp add: unreleased_def)
            qed
          qed
        qed
      qed
    qed
  qed
qed

text \<open>
  C10: \<open>OnClose\<close> leaves every field of the client as it was, so a zero-length receive
  completion neither sets the state to \<open>CLOSED\<close> nor releases the socket; no call other
  than Close (and Destroy, which calls it) moves the state to \<open>CLOSED\<close>, resets the
  socket handle or closes the socket; Close does all three.
\<close>

theorem OnClose_leaves_client:
  "OnClose c = (c, [TRACE ''OnClose()''])
   \<and> (IsAlive_reply os \<longrightarrow>
        IoCompletionCallback os RECV ERROR_SUCCESS 0 c
          = Inr (c, [TRACE ''OnClose()'', PostRemoveClient, IOEvent_Destroy RECV]))
   \<and> (call \<noteq> Call_Close \<and> call \<noteq> Call_Destroy \<and> step os call c = Inr (c', t) \<longrightarrow>
        unreleased c c' t)
   \<and> (m_State c \<noteq> CLOSED \<longrightarrow>
        Close c = (c\<lparr>m_State := CLOSED, m_Socket := None\<rparr>,
                   [CloseSocket (m_Socket c), CancelIoEx (m_Socket c)]))"
proof (intro conjI impI)
  show "OnClose c = (c, [TRACE ''OnClose()''])" by (simp add: OnClose_def)
next
  assume "IsAlive_reply os"
  then show "IoCompletionCallback os RECV ERROR_SUCCESS 0 c
      = Inr (c, [TRACE ''OnClose()'', PostRemoveClient, IOEvent_Destroy RECV])"
    by (simp add: IoCompletionCallback_def OnClose_def)
next
  assume h: "call \<noteq> Call_Close \<and> call \<noteq> Call_Destroy \<and> step os call c = Inr (c', t)"
  then show "unreleased c c' t"
    by (cases call)
      (auto simp: dropping_def split: sum.splits
        dest: Create_unreleased PostConnect_unreleased PostReceive_unreleased
          PostSend_unreleased Shutdown_unreleased IoCompletionCallback_unreleased)
next
  assume "m_State c \<noteq> CLOSED"
  then show "Close c = (c\<lparr>m_State := CLOSED, m_Socket := None\<rparr>,
      [CloseSocket (m_Socket c), CancelIoEx (m_Socket c)])"
    by (simp add: Close_def)
qed

theorem OnClose_leaves_client_witness:
  "IsAlive_reply os_pending
   \<and> OnClose connected_client = (connected_client, [TRACE ''OnClose()''])
   \<and> step os_pending (Completion RECV ERROR_SUCCESS 0) connected_client
       = Inr (connected_client, [TRACE ''OnClose()'', PostRemoveClient, IOEvent_Destroy RECV])
   \<and> unreleased connected_client connected_client
       [TRACE ''OnClose()'', PostRemoveClient, IOEvent_Destroy RECV]
   \<and> m_State connected_client = CONNECTED
   \<and> m_Socket connected_client = Some 1
   \<and> Close connected_client
       = (connected_client\<lparr>m_State := CLOSED, m_Socket := None\<rparr>,
          [CloseSocket (Some 1), CancelIoEx (Some 1)])"
proof -
  have a: "IsAlive_reply os_pending" by (simp add: os_pending_def)
  have s: "m_State connected_client = CONNECTED" "m_Socket connected_client = Some 1"
    by (simp_all add: connected_client_def)
  note w = OnClose_leaves_client [of connected_client os_pending
      "Completion RECV ERROR_SUCCESS 0" connected_client
      "[TRACE ''OnClose()'', PostRemoveClient, IOEvent_Destroy RECV]"]
  from w a have 1: "step os_pending (Completion RECV ERROR_SUCCESS 0) connected_client
       = Inr (connected_client, [TRACE ''OnClose()'', PostRemoveClient, IOEvent_Destroy RECV])"
    by simp
  from w 1 have 2: "unreleased connected_client connected_client
       [TRACE ''OnClose()'', PostRemoveClient, IOEvent_Destroy RECV]"
    by simp
  from w s have 3: "Close connected_client
       = (connected_client\<lparr>m_State := CLOSED, m_Socket := None\<rparr>,
          [CloseSocket (Some 1), CancelIoEx (Some 1)])"
    by simp
  from w have 4: "OnClose connected_client = (connected_client, [TRACE ''OnClose()''])"
    by simp
  from a 1 2 3 4 s show ?thesis by simp
qed

subsection \<open>Evaluations at concrete inputs\<close>

text \<open>
  C1: every event taken from the pool is returned to it exactly once. It fails where a
  receive or a send fails at once: PostReceive and PostSend take an event from the pool,
  cancel the notification and ask for the removal of the client, and never return the
  event; no completion will be delivered for it. PostConnect, in the same situation
  (every candidate failing at once), returns its event.
\<close>

theorem sync_failure_keeps_event:
  "PostReceive os_recv_reset connected_client
     = Inr (connected_client,
         [IOEvent_Create RECV, StartThreadpoolIo, WSARecv 4, CancelThreadpoolIo,
          ERROR_CODE 10054 ''WSARecv() failed.'', PostRemoveClient])
   \<and> PostSend os_send_reset [1, 2] 2 connected_client
     = Inr (connected_client\<lparr>m_sendBuffer := [1, 2, 0, 0]\<rparr>,
         [IOEvent_Create SEND, StartThreadpoolIo, WSASend 2, CancelThreadpoolIo,
          ERROR_CODE 10054 ''WSASend() failed.'', PostRemoveClient])
   \<and> PostConnect os_refusing ''host'' 80 created_client
     = Inr (False, created_client\<lparr>m_infoList := [10, 11, 12], m_info := []\<rparr>,
         [getaddrinfo, IOEvent_Create CONNECT,
          StartThreadpoolIo, ConnectEx 10, CancelThreadpoolIo, ERROR_CODE 10061 ''ConnectEx() failed.'',
          StartThreadpoolIo, ConnectEx 11, CancelThreadpoolIo, ERROR_CODE 10061 ''ConnectEx() failed.'',
          StartThreadpoolIo, ConnectEx 12, CancelThreadpoolIo, ERROR_CODE 10061 ''ConnectEx() failed.'',
          IOEvent_Destroy CONNECT])"
proof (intro conjI)
  show "PostReceive os_recv_reset connected_client
     = Inr (connected_client,
         [IOEvent_Create RECV, StartThreadpoolIo, WSARecv 4, CancelThreadpoolIo,
          ERROR_CODE 10054 ''WSARecv() failed.'', PostRemoveClient])"
    by (simp add: PostReceive_def client_fields os_recv_reset_def os_pending_def failed_now_def
        last_error_def ERROR_IO_PENDING_def)
next
  show "PostSend os_send_reset [1, 2] 2 connected_client
     = Inr (connected_client\<lparr>m_sendBuffer := [1, 2, 0, 0]\<rparr>,
         [IOEvent_Create SEND, StartThreadpoolIo, WSASend 2, CancelThreadpoolIo,
          ERROR_CODE 10054 ''WSASend() failed.'', PostRemoveClient])"
    by (simp add: PostSend_def memcpy_def client_fields os_send_reset_def os_pending_def
        ERROR_IO_PENDING_def numeral_eq_Suc)
next
  let ?c0 = "created_client\<lparr>m_infoList := [10, 11, 12], m_info := [10, 11, 12]\<rparr>"
  have i: "m_info ?c0 = [10, 11, 12] @ []" by simp
  have r: "\<forall>x\<in>set [10, 11, 12]. failed_now (ConnectEx_reply os_refusing x)"
    by (simp add: os_refusing_def failed_now_def ERROR_IO_PENDING_def)
  have a: "failed_attempt os_refusing x
      = [StartThreadpoolIo, ConnectEx x, CancelThreadpoolIo, ERROR_CODE 10061 ''ConnectEx() failed.'']" for x
    by (simp add: failed_attempt_def os_refusing_def last_error_def)
  have l: "connect_loop os_refusing ?c0
      = Inr (False, created_client\<lparr>m_infoList := [10, 11, 12], m_info := []\<rparr>,
         [StartThreadpoolIo, ConnectEx 10, CancelThreadpoolIo, ERROR_CODE 10061 ''ConnectEx() failed.'',
          StartThreadpoolIo, ConnectEx 11, CancelThreadpoolIo, ERROR_CODE 10061 ''ConnectEx() failed.'',
          StartThreadpoolIo, ConnectEx 12, CancelThreadpoolIo, ERROR_CODE 10061 ''ConnectEx() failed.'',
          IOEvent_Destroy CONNECT])"
    by (simp add: connect_loop_prefix [OF i r] connect_loop_Nil a)
  have g: "getaddrinfo_reply os_refusing = Some [10, 11, 12]" "sprintf_s_reply os_refusing = 2"
    by (simp_all add: os_refusing_def os_pending_def)
  show "PostConnect os_refusing ''host'' 80 created_client
     = Inr (False, created_client\<lparr>m_infoList := [10, 11, 12], m_info := []\<rparr>,
         [getaddrinfo, IOEvent_Create CONNECT,
          StartThreadpoolIo, ConnectEx 10, CancelThreadpoolIo, ERROR_CODE 10061 ''ConnectEx() failed.'',
          StartThreadpoolIo, ConnectEx 11, CancelThreadpoolIo, ERROR_CODE 10061 ''ConnectEx() failed.'',
          StartThreadpoolIo, ConnectEx 12, CancelThreadpoolIo, ERROR_CODE 10061 ''ConnectEx() failed.'',
          IOEvent_Destroy CONNECT])"
    by (simp add: PostConnect_def client_fields g l)
qed

text \<open>
  C4: on a failed connect completion with a candidate left, the claim has the callback
  arm the notification and then start the next connect. The callback starts the connect
  first, and calls \<open>StartThreadpoolIo\<close> only afterwards and only when the connect is
  pending; when the connect succeeds or fails at once the notification is never armed.
  PostConnect arms before each \<open>ConnectEx\<close>.
\<close>

theorem retry_connects_before_arming:
  "IoCompletionCallback os_pending CONNECT 1225 0 connecting_client
     = Inr (connecting_client\<lparr>m_info := [11]\<rparr>,
         [ERROR_CODE 1225 ''I/O operation failed.'', ConnectEx 11, StartThreadpoolIo])
   \<and> IoCompletionCallback os_connects_now CONNECT 1225 0 connecting_client
     = Inr (connecting_client\<lparr>m_info := [11], m_State := CONNECTED\<rparr>,
         [ERROR_CODE 1225 ''I/O operation failed.'', ConnectEx 11,
          setsockopt SO_UPDATE_CONNECT_CONTEXT, IOEvent_Create RECV, StartThreadpoolIo, WSARecv 4,
          TRACE ''Connection from ip[%s], port[%d] to ip[%s], port[%d] succeeded.'',
          IOEvent_Destroy CONNECT])
   \<and> IoCompletionCallback os_refusing CONNECT 1225 0 connecting_client
     = Inr (connecting_client\<lparr>m_info := [11]\<rparr>,
         [ERROR_CODE 1225 ''I/O operation failed.'', ConnectEx 11,
          ERROR_CODE 1225 ''I/O operation failed.'', PostRemoveClient, IOEvent_Destroy CONNECT])
   \<and> PostConnect os_pending ''host'' 80 created_client
     = Inr (True, created_client\<lparr>m_infoList := [10, 11, 12], m_info := [10, 11, 12]\<rparr>,
         [getaddrinfo, IOEvent_Create CONNECT, StartThreadpoolIo, ConnectEx 10])"
proof (intro conjI)
  show "IoCompletionCallback os_pending CONNECT 1225 0 connecting_client
     = Inr (connecting_client\<lparr>m_info := [11]\<rparr>,
         [ERROR_CODE 1225 ''I/O operation failed.'', ConnectEx 11, StartThreadpoolIo])"
    by (simp add: IoCompletionCallback_def connecting_client_def os_pending_def
        ERROR_SUCCESS_def)
next
  show "IoCompletionCallback os_connects_now CONNECT 1225 0 connecting_client
     = Inr (connecting_client\<lparr>m_info := [11], m_State := CONNECTED\<rparr>,
         [ERROR_CODE 1225 ''I/O operation failed.'', ConnectEx 11,
          setsockopt SO_UPDATE_CONNECT_CONTEXT, IOEvent_Create RECV, StartThreadpoolIo, WSARecv 4,
          TRACE ''Connection from ip[%s], port[%d] to ip[%s], port[%d] succeeded.'',
          IOEvent_Destroy CONNECT])"
    by (simp add: IoCompletionCallback_def connecting_client_def os_connects_now_def
        os_pending_def ERROR_SUCCESS_def OnConnect_def PostReceive_def client_fields
        failed_now_def and_then_def after_calls_def)
next
  show "IoCompletionCallback os_refusing CONNECT 1225 0 connecting_client
     = Inr (connecting_client\<lparr>m_info := [11]\<rparr>,
         [ERROR_CODE 1225 ''I/O operation failed.'', ConnectEx 11,
          ERROR_CODE 1225 ''I/O operation failed.'', PostRemoveClient, IOEvent_Destroy CONNECT])"
    by (simp add: IoCompletionCallback_def connecting_client_def os_refusing_def
        os_pending_def ERROR_SUCCESS_def ERROR_IO_PENDING_def)
next
  show "PostConnect os_pending ''host'' 80 created_client
     = Inr (True, created_client\<lparr>m_infoList := [10, 11, 12], m_info := [10, 11, 12]\<rparr>,
         [getaddrinfo, IOEvent_Create CONNECT, StartThreadpoolIo, ConnectEx 10])"
  proof -
    let ?c0 = "created_client\<lparr>m_infoList := [10, 11, 12], m_info := [10, 11, 12]\<rparr>"
    have i: "m_info ?c0 = 10 # [11, 12]" by simp
    have p: "ConnectEx_reply os_pending 10 = Error ERROR_IO_PENDING"
      by (simp add: os_pending_def)
    have g: "getaddrinfo_reply os_pending = Some [10, 11, 12]" "sprintf_s_reply os_pending = 2"
      by (simp_all add: os_pending_def)
    show ?thesis
      by (simp add: PostConnect_def client_fields g connect_loop_pending [OF i p])
  qed
qed

text \<open>
  C7: when Create fails after the socket was created (the address cannot be made
  reusable, or the thread-pool I/O object cannot be created) it returns false in state
  \<open>WAIT\<close>, but the client keeps the socket handle; a second Create then fails its own
  assertion that the handle is invalid.
\<close>

theorem failed_Create_keeps_socket:
  "Create os_no_reuse 0 (Client_init 4 4)
     = Inr (False, (Client_init 4 4)\<lparr>m_Socket := Some 1\<rparr>,
         [CreateSocket, setsockopt SO_REUSEADDR,
          ERROR_CODE 0 ''setsockopt() failed with SO_REUSEADDR.''])
   \<and> Create os_no_tpio 0 (Client_init 4 4)
     = Inr (False, (Client_init 4 4)\<lparr>m_Socket := Some 1\<rparr>,
         [CreateSocket, setsockopt SO_REUSEADDR, CreateThreadpoolIo,
          ERROR_CODE 0 ''CreateThreadpoolIo() failed.''])
   \<and> m_State ((Client_init 4 4)\<lparr>m_Socket := Some 1\<rparr>) = WAIT
   \<and> Create os_pending 0 ((Client_init 4 4)\<lparr>m_Socket := Some 1\<rparr>) = Inl AssertFailed"
  by (simp add: Create_def Client_init_def os_no_reuse_def os_no_tpio_def os_pending_def)

text \<open>
  C9: a receive completion that fills the buffer, with as many bytes as the descriptor
  advertises, makes \<open>OnRecv\<close> write the terminator one past the end of a buffer of
  that size.
\<close>

theorem OnRecv_full_buffer:
  "length (m_recvBuffer connected_client) = MAX_RECV_BUFFER os_pending
   \<and> IoCompletionCallback os_pending RECV ERROR_SUCCESS (MAX_RECV_BUFFER os_pending) connected_client
     = Inl OutOfBounds"
  by (simp add: IoCompletionCallback_def OnRecv_def and_then_def client_fields)
    (simp add: os_pending_def)

subsection \<open>The copy of PostSend\<close>

text \<open>
  C8, as stated: PostSend guards the copy against a size beyond the capacity of the send
  buffer. It does not: in state \<open>CONNECTED\<close>, five bytes are copied into a buffer of
  four.
\<close>

theorem PostSend_unguarded:
  "m_State connected_client = CONNECTED \<and> length (m_sendBuffer connected_client) = 4
   \<and> PostSend os_pending [1, 2, 3, 4, 5] 5 connected_client = Inl OutOfBounds"
  by (simp add: PostSend_def memcpy_def client_fields)

text \<open>
  C8, amended: PostSend does nothing unless the state is \<open>CONNECTED\<close>. In state
  \<open>CONNECTED\<close>, when \<open>sz\<close> is at most the capacity of the send buffer (and the caller's
  data holds \<open>sz\<close> bytes), it copies the first \<open>sz\<close> bytes of the data over the first
  \<open>sz\<close> bytes of the send buffer, and the copy stays inside the buffer, which keeps its
  length. The bound on \<open>sz\<close> is the caller's to keep: PostSend does not check it.
\<close>

theorem PostSend_copy:
  "(m_State c \<noteq> CONNECTED \<longrightarrow> PostSend os buffer sz c = Inr (c, []))
   \<and> (m_State c = CONNECTED \<and> sz \<le> length buffer \<and> sz \<le> length (m_sendBuffer c) \<longrightarrow>
        (\<exists>t. PostSend os buffer sz c
           = Inr (c\<lparr>m_sendBuffer := take sz buffer @ drop sz (m_sendBuffer c)\<rparr>, t))
        \<and> length (take sz buffer @ drop sz (m_sendBuffer c)) = length (m_sendBuffer c))"
  by (auto simp: PostSend_def memcpy_def Let_def split: IoReply.splits)

theorem PostSend_copy_witness:
  "m_State connected_client = CONNECTED
   \<and> PostSend os_pending [1, 2] 2 connected_client
     = Inr (connected_client\<lparr>m_sendBuffer := [1, 2, 0, 0]\<rparr>,
         [IOEvent_Create SEND, StartThreadpoolIo, WSASend 2])
   \<and> PostSend os_pending [1, 2] 2 created_client = Inr (created_client, [])"
proof -
  note c = client_fields
  from PostSend_copy [of created_client os_pending "[1, 2]" 2]
  have 1: "PostSend os_pending [1, 2] 2 created_client = Inr (created_client, [])"
    by (simp add: c)
  from PostSend_copy [of connected_client os_pending "[1, 2]" 2]
  obtain t where 3: "PostSend os_pending [1, 2] 2 connected_client
      = Inr (connected_client\<lparr>m_sendBuffer := [1, 2, 0, 0]\<rparr>, t)"
    by (auto simp: c)
  have "PostSend os_pending [1, 2] 2 connected_client
      = Inr (connected_client\<lparr>m_sendBuffer := [1, 2, 0, 0]\<rparr>,
          [IOEvent_Create SEND, StartThreadpoolIo, WSASend 2])"
    by (simp add: PostSend_def memcpy_def c os_pending_def numeral_eq_Suc)
  with 1 3 c show ?thesis by simp
qed

end
